theory Spec2Isabelle
  imports Main
begin

section \<open>Exceptions and external collaborators\<close>

text \<open>
  The repository is Python glue around libraries (a PDF reader, a text splitter, a FAISS
  index, a retrieval chain, a YAML parser). A Python call that may raise is modelled as a
  function into \<open>py_exception + 'a\<close>, with \<open>Inl\<close> for the raised exception. Library
  calls are not part of the repository: each one is a field of an environment record, so
  every theorem about the repository's code holds for any behaviour of the library.
\<close>

datatype py_exception =
    ValueError string
  | KeyError string
  | TypeError string
  | AttributeError string
  | FileNotFoundError string
  | ConnectionError string
  | RequestsConnectionError string
  | LibraryError string

text \<open>\<open>str(e)\<close>: the message carried by the exception.\<close>

fun str_of :: "py_exception \<Rightarrow> string" where
  "str_of (ValueError m) = m"
| "str_of (KeyError m) = m"
| "str_of (TypeError m) = m"
| "str_of (AttributeError m) = m"
| "str_of (FileNotFoundError m) = m"
| "str_of (ConnectionError m) = m"
| "str_of (RequestsConnectionError m) = m"
| "str_of (LibraryError m) = m"

text \<open>
  Python values as literals and \<open>yaml.safe_load\<close> produce them: \<open>None\<close>, scalars,
  lists and mappings with string keys. A float is kept as the text of its literal. The
  sizes and separators handed to the splitter are such values: the annotations
  \<open>int\<close> and \<open>List[str]\<close> of the source are not enforced.
\<close>

datatype yaml =
    YNull
  | YBool bool
  | YInt int
  | YFloat string
  | YStr string
  | YList "yaml list"
  | YDict "(string \<times> yaml) list"

record document =
  page_content :: string
  metadata :: "(string \<times> string) list"

section \<open>pdf\_rag\_app/pdf\_loader.py\<close>

text \<open>
  \<open>PDFLoader.__init__\<close> stores the two sizes and builds the library splitter from them;
  the constructor of \<open>RecursiveCharacterTextSplitter\<close> is the parameter \<open>mk\<close>, called
  with no separator list (\<open>separators=None\<close> is the library's default).
\<close>

record 'sp PDFLoader =
  chunk_size :: int
  chunk_overlap :: int
  text_splitter :: 'sp


text \<open>
  The two library calls of \<open>load_pdf\<close>: \<open>PyPDFLoader(file_path).load()\<close> and
  \<open>text_splitter.split_documents(documents)\<close>.
\<close>

record 'sp pdf_env =
  PyPDFLoader_load :: "string \<Rightarrow> py_exception + document list"
  split_documents :: "'sp \<Rightarrow> document list \<Rightarrow> py_exception + document list"
  glob_pdf :: "string \<Rightarrow> string list option"

text \<open>
  \<open>load_pdf\<close> returns the lines it prints and its outcome. The body is one
  \<open>try\<close> whose handler catches every \<open>Exception\<close>, prints and returns the empty list.
\<close>

definition load_pdf ::
  "'sp pdf_env \<Rightarrow> 'sp PDFLoader \<Rightarrow> string \<Rightarrow> string list \<times> (py_exception + document list)" where
  "load_pdf env self file_path =
     (case PyPDFLoader_load env file_path of
        Inl e \<Rightarrow> ([''Error loading PDF '' @ file_path @ '': '' @ str_of e], Inr [])
      | Inr documents \<Rightarrow>
          (case split_documents env (text_splitter self) documents of
             Inl e \<Rightarrow> ([''Error loading PDF '' @ file_path @ '': '' @ str_of e], Inr [])
           | Inr chunks \<Rightarrow> ([], Inr chunks)))"

text \<open>
  The loop of \<open>load_pdfs_from_directory\<close> over the files found, extending the list of
  chunks file by file; the printed progress lines other than those of \<open>load_pdf\<close> are
  left out.
\<close>

fun load_all ::
  "'sp pdf_env \<Rightarrow> 'sp PDFLoader \<Rightarrow> string list \<Rightarrow> document list
     \<Rightarrow> string list \<times> (py_exception + document list)" where
  "load_all env self [] all_chunks = ([], Inr all_chunks)"
| "load_all env self (pdf_file # pdf_files) all_chunks =
     (case load_pdf env self pdf_file of
        (out, Inl e) \<Rightarrow> (out, Inl e)
      | (out, Inr chunks) \<Rightarrow>
          (case load_all env self pdf_files (all_chunks @ chunks) of
             (out', r) \<Rightarrow> (out @ out', r)))"

definition load_pdfs_from_directory ::
  "'sp pdf_env \<Rightarrow> 'sp PDFLoader \<Rightarrow> string
     \<Rightarrow> string list \<times> (py_exception + document list)" where
  "load_pdfs_from_directory env self directory_path =
     (case glob_pdf env directory_path of
        None \<Rightarrow> ([''Directory '' @ directory_path @ '' does not exist''], Inr [])
      | Some pdf_files \<Rightarrow> load_all env self pdf_files [])"

section \<open>pdf\_rag\_app/rag.py\<close>

text \<open>
  The objects \<open>OllamaEmbeddings(base_url, model)\<close> and \<open>Ollama(base_url, model,
  temperature)\<close> are kept as the arguments they were built from.
\<close>

record embeddings_cfg =
  emb_base_url :: string
  emb_model :: string

text \<open>
  A \<open>RAGSystem\<close> after \<open>__init__\<close>. The vector store and the chain are library
  objects (\<open>'vs\<close>, \<open>'ch\<close>); \<open>None\<close> is Python's \<open>None\<close>.
\<close>

record ('vs, 'ch) RAGSystem =
  ollama_base_url :: string
  embedding_model :: string
  llm_model :: string
  vector_store :: "'vs option"
  qa_chain :: "'ch option"

definition embeddings :: "('vs, 'ch) RAGSystem \<Rightarrow> embeddings_cfg" where
  "embeddings self = \<lparr>emb_base_url = ollama_base_url self, emb_model = embedding_model self\<rparr>"

text \<open>
  What the library does is recorded in a trace, and the directory tree is a map from
  paths to whatever is stored there (\<open>'snap\<close>). Console output of this file is not
  modelled.
\<close>

datatype lib_call =
    LoadLocal string
  | FromDocuments "document list"
  | SaveLocal string
  | FromChainType
  | ChainCall string
  | SimilaritySearch string int

record 'snap world =
  disk :: "string \<Rightarrow> 'snap option"
  trace :: "lib_call list"

record ('vs, 'ch, 'snap) rag_env =
  requests_get :: "string \<Rightarrow> py_exception + nat"
  faiss_load_local :: "'snap \<Rightarrow> embeddings_cfg \<Rightarrow> py_exception + 'vs"
  faiss_from_documents :: "document list \<Rightarrow> embeddings_cfg \<Rightarrow> py_exception + 'vs"
  faiss_save_local :: "'vs \<Rightarrow> py_exception + 'snap"
  from_chain_type :: "string \<Rightarrow> 'vs \<Rightarrow> py_exception + 'ch"
  call_chain :: "'ch \<Rightarrow> string \<Rightarrow> py_exception + string \<times> document list"
  similarity_search :: "'vs \<Rightarrow> string \<Rightarrow> int \<Rightarrow> py_exception + document list"




text \<open>
  \<open>os.path.exists\<close> on the modelled directory tree; the empty path never exists.
  \<open>truthy\<close> is the truth value Python gives \<open>vector_store_path\<close>: false for
  \<open>None\<close> and for the empty string.
\<close>

definition os_path_exists :: "'snap world \<Rightarrow> string \<Rightarrow> bool" where
  "os_path_exists w p = (p \<noteq> [] \<and> disk w p \<noteq> None)"

fun truthy :: "string option \<Rightarrow> bool" where
  "truthy None = False"
| "truthy (Some p) = (p \<noteq> [])"

definition logged :: "lib_call \<Rightarrow> 'snap world \<Rightarrow> 'snap world" where
  "logged c w = w\<lparr>trace := trace w @ [c]\<rparr>"

text \<open>
  \<open>build_vector_store\<close>. The attribute \<open>self.vector_store\<close> is assigned as soon as
  the library has returned the store, before \<open>save_local\<close> runs, so an exception of
  \<open>save_local\<close> leaves the new store in place.
\<close>

definition build_vector_store ::
  "('vs, 'ch, 'snap) rag_env \<Rightarrow> 'snap world \<Rightarrow> ('vs, 'ch) RAGSystem \<Rightarrow> document list
     \<Rightarrow> string option \<Rightarrow> (py_exception + unit) \<times> 'snap world \<times> ('vs, 'ch) RAGSystem" where
  "build_vector_store env w self documents vector_store_path =
     (if truthy vector_store_path \<and> os_path_exists w (the vector_store_path) then
        (let p = the vector_store_path; w1 = logged (LoadLocal p) w in
         case faiss_load_local env (the (disk w p)) (embeddings self) of
           Inl e \<Rightarrow> (Inl e, w1, self)
         | Inr vs \<Rightarrow> (Inr (), w1, self\<lparr>vector_store := Some vs\<rparr>))
      else if documents = [] then
        (Inl (ValueError ''No documents provided to build vector store''), w, self)
      else
        (let w1 = logged (FromDocuments documents) w in
         case faiss_from_documents env documents (embeddings self) of
           Inl e \<Rightarrow> (Inl e, w1, self)
         | Inr vs \<Rightarrow>
             (let self1 = self\<lparr>vector_store := Some vs\<rparr> in
              if truthy vector_store_path then
                (let p = the vector_store_path; w2 = logged (SaveLocal p) w1 in
                 case faiss_save_local env vs of
                   Inl e \<Rightarrow> (Inl e, w2, self1)
                 | Inr snap \<Rightarrow> (Inr (), w2\<lparr>disk := (disk w2)(p \<mapsto> snap)\<rparr>, self1))
              else (Inr (), w1, self1))))"










section \<open>src/pdf\_rag/utils/text\_processing.py\<close>





text \<open>
  The library constructor, for the concrete scenarios below. It is not code of the
  repository: \<open>TextSplitter.__init__\<close> of the splitter library keeps the values and
  rejects an overlap larger than the chunk size. Only integer sizes are covered.
\<close>

record splitter_cfg =
  sp_chunk_size :: int
  sp_chunk_overlap :: int
  sp_separators :: yaml

fun RecursiveCharacterTextSplitter :: "yaml \<Rightarrow> yaml \<Rightarrow> yaml \<Rightarrow> py_exception + splitter_cfg" where
  "RecursiveCharacterTextSplitter (YInt csize) (YInt coverlap) seps =
     (if coverlap > csize then
        Inl (ValueError ''Got a larger chunk overlap than chunk size, should be smaller.'')
      else Inr \<lparr>sp_chunk_size = csize, sp_chunk_overlap = coverlap, sp_separators = seps\<rparr>)"
| "RecursiveCharacterTextSplitter _ _ seps = Inl (TypeError ''sizes must be integers'')"

section \<open>src/pdf\_rag/utils/config\_loader.py\<close>

text \<open>
  \<open>_replace_env_vars\<close>: a string of the form \<open>${NAME}\<close> becomes the value of the
  environment variable \<open>NAME\<close> when it is set; keys are never touched.
\<close>

definition is_placeholder :: "string \<Rightarrow> bool" where
  "is_placeholder s = (take 2 s = ''${'' \<and> s \<noteq> [] \<and> last s = CHR ''}'')"

fun replace_env_vars :: "(string \<Rightarrow> string option) \<Rightarrow> yaml \<Rightarrow> yaml" where
  "replace_env_vars getenv (YDict kvs) =
     YDict (map (\<lambda>kv. (fst kv, replace_env_vars getenv (snd kv))) kvs)"
| "replace_env_vars getenv (YList items) = YList (map (replace_env_vars getenv) items)"
| "replace_env_vars getenv (YStr s) =
     (if is_placeholder s then
        (case getenv (butlast (drop 2 s)) of None \<Rightarrow> YStr s | Some v \<Rightarrow> YStr v)
      else YStr s)"
| "replace_env_vars getenv c = c"

record ConfigLoader =
  config_dir :: string
  configs :: "string \<Rightarrow> yaml option"

definition ConfigLoader_init :: "string \<Rightarrow> ConfigLoader" where
  "ConfigLoader_init dir = \<lparr>config_dir = dir, configs = Map.empty\<rparr>"

text \<open>
  The files: \<open>joinpath\<close> is \<open>Path(config_dir) / config_file\<close>; \<open>read_yaml\<close> gives
  \<open>None\<close> for a path that does not exist, and otherwise what opening and parsing the
  file gives.
\<close>

record config_env =
  joinpath :: "string \<Rightarrow> string \<Rightarrow> string"
  read_yaml :: "string \<Rightarrow> (py_exception + yaml) option"
  os_getenv :: "string \<Rightarrow> string option"

definition load_config ::
  "config_env \<Rightarrow> ConfigLoader \<Rightarrow> string \<Rightarrow> (py_exception + yaml) \<times> ConfigLoader" where
  "load_config env self config_file =
     (let config_path = joinpath env (config_dir self) config_file in
      case read_yaml env config_path of
        None \<Rightarrow> (Inl (FileNotFoundError (''Configuration file not found: '' @ config_path)), self)
      | Some (Inl e) \<Rightarrow> (Inl e, self)
      | Some (Inr parsed) \<Rightarrow>
          (let config = replace_env_vars (os_getenv env) parsed in
           (Inr config, self\<lparr>configs := (configs self)(config_file \<mapsto> config)\<rparr>)))"

definition get_config ::
  "config_env \<Rightarrow> ConfigLoader \<Rightarrow> string \<Rightarrow> (py_exception + yaml) \<times> ConfigLoader" where
  "get_config env self config_file =
     (case configs self config_file of
        None \<Rightarrow> load_config env self config_file
      | Some config \<Rightarrow> (Inr config, self))"

text \<open>
  \<open>d[k]\<close> and \<open>d.get(k, default)\<close> on a parsed value. Only a mapping has them; the
  messages of the two errors on other values are shortened.
\<close>

fun subscript :: "yaml \<Rightarrow> string \<Rightarrow> py_exception + yaml" where
  "subscript (YDict kvs) k =
     (case map_of kvs k of
        None \<Rightarrow> Inl (KeyError ([CHR 0x27] @ k @ [CHR 0x27]))
      | Some v \<Rightarrow> Inr v)"
| "subscript _ k = Inl (TypeError ''object is not subscriptable with a string'')"

fun dict_get :: "yaml \<Rightarrow> string \<Rightarrow> yaml \<Rightarrow> py_exception + yaml" where
  "dict_get (YDict kvs) k d = Inr (case map_of kvs k of None \<Rightarrow> d | Some v \<Rightarrow> v)"
| "dict_get _ k d = Inl (AttributeError ''object has no attribute get'')"

text \<open>The top-level keys of a parsed configuration.\<close>

fun keys :: "yaml \<Rightarrow> string list" where
  "keys (YDict kvs) = map fst kvs"
| "keys _ = []"

section \<open>src/pdf\_rag/ui/streamlit\_app.py\<close>

text \<open>
  The script runs once per interaction, on the session state and the widget values of
  that interaction. The components it imports from \<open>pdf_rag.core\<close> and
  \<open>pdf_rag.models\<close> are collaborators: an object is kept as the arguments of its
  constructor, and what its constructor and methods do is a field of the environment.
  The collection behind the vector store lives outside the session (\<open>'db\<close>).
  Titles, headers, metrics, spinners, the list of sources and the chat history view
  produce no state and are not modelled; the pictographs that open some messages are
  left out of the texts.
\<close>

datatype embedding_generator = EmbeddingGenerator yaml yaml

datatype vector_store_obj = VectorStore yaml yaml yaml

datatype openrouter_llm = OpenRouterLLM yaml yaml yaml yaml

datatype rag_retriever =
  RAGRetriever "vector_store_obj option" "embedding_generator option" yaml yaml

record retrieved =
  r_text :: string
  r_distance :: string
  r_metadata :: "(string \<times> yaml) list"

record chat =
  chat_question :: string
  chat_answer :: string
  chat_sources :: "retrieved list"

record session =
  ss_vector_store :: "vector_store_obj option"
  ss_embedding_generator :: "embedding_generator option"
  ss_llm :: "openrouter_llm option"
  ss_retriever :: "rag_retriever option"
  documents_loaded :: bool
  chat_history :: "chat list"

definition initial_session :: session where
  "initial_session =
     \<lparr>ss_vector_store = None, ss_embedding_generator = None, ss_llm = None,
      ss_retriever = None, documents_loaded = False, chat_history = []\<rparr>"

datatype ext_call =
    Retrieve string
  | FormatContext
  | GetSystemMessage string
  | GenerateWithContext string string string

record 'db ui_world =
  db :: 'db
  calls :: "ext_call list"

record uploaded =
  up_name :: string
  up_buffer :: string

record pdf_data =
  pd_text :: string
  pd_num_pages :: int

record chunk_meta =
  cm_source :: string
  cm_page_count :: int
  cm_chunk_index :: nat

record ('db, 'v, 'sp) ui_env =
  cfg_env :: config_env
  EmbeddingGenerator_init :: "yaml \<Rightarrow> yaml \<Rightarrow> py_exception + unit"
  VectorStore_init :: "yaml \<Rightarrow> yaml \<Rightarrow> yaml \<Rightarrow> py_exception + unit"
  OpenRouterLLM_init :: "yaml \<Rightarrow> yaml \<Rightarrow> yaml \<Rightarrow> yaml \<Rightarrow> py_exception + unit"
  RAGRetriever_init ::
    "vector_store_obj option \<Rightarrow> embedding_generator option \<Rightarrow> yaml \<Rightarrow> yaml \<Rightarrow> py_exception + unit"
  save_upload :: "uploaded \<Rightarrow> py_exception + string"
  core_PDFLoader_load :: "string \<Rightarrow> py_exception + pdf_data"
  splitter_init :: "yaml \<Rightarrow> yaml \<Rightarrow> yaml \<Rightarrow> py_exception + 'sp"
  splitter_split_text :: "'sp \<Rightarrow> string \<Rightarrow> py_exception + string list"
  embed_texts :: "embedding_generator \<Rightarrow> string list \<Rightarrow> py_exception + 'v list"
  add_documents ::
    "vector_store_obj \<Rightarrow> 'db \<Rightarrow> string list \<Rightarrow> 'v list \<Rightarrow> chunk_meta list \<Rightarrow> py_exception + 'db"
  get_collection_count :: "vector_store_obj \<Rightarrow> 'db \<Rightarrow> py_exception + int"
  reset_collection :: "vector_store_obj \<Rightarrow> 'db \<Rightarrow> py_exception + 'db"
  retrieve :: "rag_retriever \<Rightarrow> 'db \<Rightarrow> string \<Rightarrow> py_exception + retrieved list"
  format_context :: "rag_retriever \<Rightarrow> retrieved list \<Rightarrow> py_exception + string"
  get_system_message :: "string \<Rightarrow> py_exception + string"
  generate_with_context ::
    "openrouter_llm \<Rightarrow> string \<Rightarrow> string \<Rightarrow> string \<Rightarrow> py_exception + string"

datatype ui_out = ErrorMsg string | InfoMsg string | SuccessMsg string | Markdown string

text \<open>Sequencing of calls that may raise: the first exception ends the sequence.\<close>

definition bind :: "py_exception + 'a \<Rightarrow> ('a \<Rightarrow> py_exception + 'b) \<Rightarrow> py_exception + 'b" where
  "bind r f = (case r of Inl e \<Rightarrow> Inl e | Inr a \<Rightarrow> f a)"


text \<open>
  The four constructions of \<open>initialize_components\<close>, each with its reads of the two
  configurations in the order the arguments are evaluated.
\<close>

definition make_embedding_generator ::
  "('db, 'v, 'sp) ui_env \<Rightarrow> yaml \<Rightarrow> py_exception + embedding_generator" where
  "make_embedding_generator env model_config =
     bind (subscript model_config ''embeddings'') (\<lambda>e1.
     bind (subscript e1 ''model_name'') (\<lambda>model_name.
     bind (subscript model_config ''embeddings'') (\<lambda>e2.
     bind (dict_get e2 ''device'' (YStr ''cpu'')) (\<lambda>device.
     bind (EmbeddingGenerator_init env model_name device) (\<lambda>_.
     Inr (EmbeddingGenerator model_name device))))))"

definition make_vector_store ::
  "('db, 'v, 'sp) ui_env \<Rightarrow> yaml \<Rightarrow> py_exception + vector_store_obj" where
  "make_vector_store env rag_config =
     bind (subscript rag_config ''vector_store'') (\<lambda>v1.
     bind (subscript v1 ''persist_directory'') (\<lambda>persist_directory.
     bind (subscript rag_config ''vector_store'') (\<lambda>v2.
     bind (subscript v2 ''collection_name'') (\<lambda>collection_name.
     bind (subscript rag_config ''vector_store'') (\<lambda>v3.
     bind (dict_get v3 ''distance_metric'' (YStr ''cosine'')) (\<lambda>distance_metric.
     bind (VectorStore_init env persist_directory collection_name distance_metric) (\<lambda>_.
     Inr (VectorStore persist_directory collection_name distance_metric))))))))"

definition make_llm :: "('db, 'v, 'sp) ui_env \<Rightarrow> yaml \<Rightarrow> py_exception + openrouter_llm" where
  "make_llm env model_config =
     bind (subscript model_config ''llm'') (\<lambda>l1.
     bind (subscript l1 ''model_name'') (\<lambda>model_name.
     bind (subscript model_config ''llm'') (\<lambda>l2.
     bind (subscript l2 ''temperature'') (\<lambda>temperature.
     bind (subscript model_config ''llm'') (\<lambda>l3.
     bind (subscript l3 ''max_tokens'') (\<lambda>max_tokens.
     bind (subscript model_config ''openrouter'') (\<lambda>orc.
     bind (dict_get orc ''app_name'' (YStr ''PDF-RAG-QA-System'')) (\<lambda>app_name.
     bind (OpenRouterLLM_init env model_name temperature max_tokens app_name) (\<lambda>_.
     Inr (OpenRouterLLM model_name temperature max_tokens app_name))))))))))"

definition make_retriever ::
  "('db, 'v, 'sp) ui_env \<Rightarrow> yaml \<Rightarrow> session \<Rightarrow> py_exception + rag_retriever" where
  "make_retriever env rag_config ss =
     bind (subscript rag_config ''retrieval'') (\<lambda>r1.
     bind (subscript r1 ''k'') (\<lambda>k.
     bind (subscript rag_config ''retrieval'') (\<lambda>r2.
     bind (subscript r2 ''score_threshold'') (\<lambda>score_threshold.
     bind (RAGRetriever_init env (ss_vector_store ss) (ss_embedding_generator ss) k
             score_threshold) (\<lambda>_.
     Inr (RAGRetriever (ss_vector_store ss) (ss_embedding_generator ss) k
            score_threshold))))))"

text \<open>
  \<open>initialize_components\<close>: one \<open>try\<close>; a component already in the session is kept
  and its configuration is not read; a component built before the exception stays in
  the session. The result is the returned flag, the messages shown and the session.
\<close>

definition init_failed :: "py_exception \<Rightarrow> session \<Rightarrow> bool \<times> ui_out list \<times> session" where
  "init_failed e ss = (False, [ErrorMsg (''Error initializing components: '' @ str_of e)], ss)"

definition ensure_embedding_generator ::
  "('db, 'v, 'sp) ui_env \<Rightarrow> yaml \<Rightarrow> session \<Rightarrow> py_exception + session" where
  "ensure_embedding_generator env model_config ss =
     (if ss_embedding_generator ss = None then
        bind (make_embedding_generator env model_config)
          (\<lambda>g. Inr (ss\<lparr>ss_embedding_generator := Some g\<rparr>))
      else Inr ss)"

definition ensure_vector_store ::
  "('db, 'v, 'sp) ui_env \<Rightarrow> yaml \<Rightarrow> session \<Rightarrow> py_exception + session" where
  "ensure_vector_store env rag_config ss =
     (if ss_vector_store ss = None then
        bind (make_vector_store env rag_config) (\<lambda>v. Inr (ss\<lparr>ss_vector_store := Some v\<rparr>))
      else Inr ss)"

definition ensure_llm ::
  "('db, 'v, 'sp) ui_env \<Rightarrow> yaml \<Rightarrow> session \<Rightarrow> py_exception + session" where
  "ensure_llm env model_config ss =
     (if ss_llm ss = None then
        bind (make_llm env model_config) (\<lambda>l. Inr (ss\<lparr>ss_llm := Some l\<rparr>))
      else Inr ss)"

definition ensure_retriever ::
  "('db, 'v, 'sp) ui_env \<Rightarrow> yaml \<Rightarrow> session \<Rightarrow> py_exception + session" where
  "ensure_retriever env rag_config ss =
     (if ss_retriever ss = None then
        bind (make_retriever env rag_config ss) (\<lambda>r. Inr (ss\<lparr>ss_retriever := Some r\<rparr>))
      else Inr ss)"

definition initialize_components ::
  "('db, 'v, 'sp) ui_env \<Rightarrow> session \<Rightarrow> bool \<times> ui_out list \<times> session" where
  "initialize_components env ss0 =
     (let config_loader = ConfigLoader_init ''configs'' in
      case load_config (cfg_env env) config_loader ''model_config.yaml'' of
        (Inl e, _) \<Rightarrow> init_failed e ss0
      | (Inr model_config, config_loader1) \<Rightarrow>
      (case load_config (cfg_env env) config_loader1 ''rag_config.yaml'' of
        (Inl e, _) \<Rightarrow> init_failed e ss0
      | (Inr rag_config, _) \<Rightarrow>
      (case ensure_embedding_generator env model_config ss0 of
        Inl e \<Rightarrow> init_failed e ss0
      | Inr ss1 \<Rightarrow>
      (case ensure_vector_store env rag_config ss1 of
        Inl e \<Rightarrow> init_failed e ss1
      | Inr ss2 \<Rightarrow>
      (case ensure_llm env model_config ss2 of
        Inl e \<Rightarrow> init_failed e ss2
      | Inr ss3 \<Rightarrow>
      (case ensure_retriever env rag_config ss3 of
        Inl e \<Rightarrow> init_failed e ss3
      | Inr ss4 \<Rightarrow> (True, [], ss4)))))))"








definition none_has_no :: "string \<Rightarrow> py_exception" where
  "none_has_no attr =
     AttributeError ([CHR 0x27] @ ''NoneType'' @ [CHR 0x27] @ '' object has no attribute ''
       @ [CHR 0x27] @ attr @ [CHR 0x27])"




text \<open>
  \<open>answer_question\<close> returns a string alone when retrieval found nothing, and a pair of
  answer and sources otherwise, also from its exception handler.
\<close>

datatype answer_result = OnlyText string | AnswerAndSources string "retrieved list"

definition no_information :: string where
  "no_information = ''I couldn'' @ [CHR 0x27] @ ''t find any relevant information in the uploaded documents to answer your question.''"

definition answer_failed ::
  "py_exception \<Rightarrow> 'db ui_world \<Rightarrow> session \<Rightarrow> answer_result \<times> 'db ui_world \<times> session" where
  "answer_failed e w ss = (AnswerAndSources (''Error generating answer: '' @ str_of e) [], w, ss)"

definition called :: "ext_call \<Rightarrow> 'db ui_world \<Rightarrow> 'db ui_world" where
  "called c w = w\<lparr>calls := calls w @ [c]\<rparr>"

definition answer_question ::
  "('db, 'v, 'sp) ui_env \<Rightarrow> 'db ui_world \<Rightarrow> session \<Rightarrow> string
     \<Rightarrow> answer_result \<times> 'db ui_world \<times> session" where
  "answer_question env w ss question =
     (case ss_retriever ss of
        None \<Rightarrow> answer_failed (none_has_no ''retrieve'') w ss
      | Some retriever \<Rightarrow>
      (let w1 = called (Retrieve question) w in
       case retrieve env retriever (db w) question of
        Inl e \<Rightarrow> answer_failed e w1 ss
      | Inr retrieved_docs \<Rightarrow>
      (if retrieved_docs = [] then (OnlyText no_information, w1, ss)
       else
      (let w2 = called FormatContext w1 in
       case format_context env retriever retrieved_docs of
        Inl e \<Rightarrow> answer_failed e w2 ss
      | Inr context \<Rightarrow>
      (let w3 = called (GetSystemMessage ''qa'') w2 in
       case get_system_message env ''qa'' of
        Inl e \<Rightarrow> answer_failed e w3 ss
      | Inr system_message \<Rightarrow>
      (case ss_llm ss of
        None \<Rightarrow> answer_failed (none_has_no ''generate_with_context'') w3 ss
      | Some llm \<Rightarrow>
      (let w4 = called (GenerateWithContext question context system_message) w3 in
       case generate_with_context env llm question context system_message of
        Inl e \<Rightarrow> answer_failed e w4 ss
      | Inr answer \<Rightarrow>
          (AnswerAndSources answer retrieved_docs, w4,
           ss\<lparr>chat_history := chat_history ss
                 @ [\<lparr>chat_question = question, chat_answer = answer,
                      chat_sources = retrieved_docs\<rparr>]\<rparr>))))))))"

text \<open>
  The widget values of one run, and how the run ends: to its last line, by
  \<open>st.stop()\<close>, by \<open>st.rerun()\<close>, or by an exception outside every \<open>try\<close>.
\<close>

record ui_in =
  uploaded_file :: "uploaded option"
  process_clicked :: bool
  clear_clicked :: bool
  question :: string
  get_answer_clicked :: bool










text \<open>
  The keys that \<open>initialize_components\<close> reads with a subscript, as section and option:
  four of the model configuration (besides its section \<open>openrouter\<close>) and four of the
  retrieval configuration. \<open>nested\<close> is the double subscript \<open>config[a][b]\<close>.
\<close>

definition nested :: "yaml \<Rightarrow> string \<times> string \<Rightarrow> py_exception + yaml" where
  "nested config ab = bind (subscript config (fst ab)) (\<lambda>d. subscript d (snd ab))"

definition model_config_reads :: "(string \<times> string) list" where
  "model_config_reads =
     [(''embeddings'', ''model_name''), (''llm'', ''model_name''), (''llm'', ''temperature''),
      (''llm'', ''max_tokens'')]"

definition rag_config_reads :: "(string \<times> string) list" where
  "rag_config_reads =
     [(''vector_store'', ''persist_directory''), (''vector_store'', ''collection_name''),
      (''retrieval'', ''k''), (''retrieval'', ''score_threshold'')]"

section \<open>Concrete scenarios\<close>

text \<open>
  Instances of the environments, used to run the definitions on concrete inputs. A PDF
  reader that finds every file corrupt:
\<close>

definition corrupt_pdf_env :: "splitter_cfg pdf_env" where
  "corrupt_pdf_env =
     \<lparr>PyPDFLoader_load = (\<lambda>p. Inl (LibraryError ''EOF marker not found'')),
      split_documents = (\<lambda>sp ds. Inr ds),
      glob_pdf = (\<lambda>d. None)\<rparr>"

definition default_loader :: "splitter_cfg PDFLoader" where
  "default_loader =
     \<lparr>chunk_size = 1000, chunk_overlap = 200,
      text_splitter = \<lparr>sp_chunk_size = 1000, sp_chunk_overlap = 200, sp_separators = YNull\<rparr>\<rparr>"

text \<open>
  An index library in which every stored vector remembers the model that computed it:
  building embeds each document with the given model, saving writes the entries, loading
  reads them back and attaches the embeddings it is given.
\<close>

record faiss_store =
  entries :: "(document \<times> string) list"
  query_model :: string

definition faiss_model :: "(faiss_store, unit, (document \<times> string) list) rag_env" where
  "faiss_model =
     \<lparr>requests_get = (\<lambda>url. Inr 200),
      faiss_load_local = (\<lambda>snap emb. Inr \<lparr>entries = snap, query_model = emb_model emb\<rparr>),
      faiss_from_documents =
        (\<lambda>docs emb. Inr \<lparr>entries = map (\<lambda>d. (d, emb_model emb)) docs,
                            query_model = emb_model emb\<rparr>),
      faiss_save_local = (\<lambda>vs. Inr (entries vs)),
      from_chain_type = (\<lambda>l vs. Inr ()),
      call_chain = (\<lambda>ch q. Inr (''I don't have enough information'', [])),
      similarity_search = (\<lambda>vs q k. Inr (map fst (take (nat k) (entries vs))))\<rparr>"

definition empty_world :: "((document \<times> string) list) world" where
  "empty_world = \<lparr>disk = Map.empty, trace = []\<rparr>"

definition system_with :: "string \<Rightarrow> (faiss_store, unit) RAGSystem" where
  "system_with emodel =
     \<lparr>ollama_base_url = ''http://localhost:11434'', embedding_model = emodel,
      llm_model = ''mistral'', vector_store = None, qa_chain = None\<rparr>"

definition paris :: document where
  "paris = \<lparr>page_content = ''Paris is the capital of France.'', metadata = []\<rparr>"

text \<open>The world after a system configured with model \<open>A\<close> has built and saved an index.\<close>

definition world_A :: "((document \<times> string) list) world" where
  "world_A =
     fst (snd (build_vector_store faiss_model empty_world (system_with ''A'') [paris]
                 (Some ''idx'')))"

text \<open>A configuration directory with the two files of the application.\<close>

definition model_yaml :: yaml where
  "model_yaml =
     YDict [(''embeddings'', YDict [(''model_name'', YStr ''all-MiniLM-L6-v2'')]),
            (''llm'', YDict [(''model_name'', YStr ''some/model''),
                             (''temperature'', YFloat ''0.7''),
                             (''max_tokens'', YInt 512)]),
            (''openrouter'', YDict [])]"

definition rag_yaml :: yaml where
  "rag_yaml =
     YDict [(''document_processing'', YDict [(''chunk_size'', YInt 1000),
                                             (''chunk_overlap'', YInt 200),
                                             (''separators'', YNull)]),
            (''retrieval'', YDict [(''k'', YInt 3), (''score_threshold'', YFloat ''0.5'')]),
            (''vector_store'', YDict [(''persist_directory'', YStr ''data/vector_db''),
                                      (''collection_name'', YStr ''pdf_documents'')])]"

definition demo_cfg :: config_env where
  "demo_cfg =
     \<lparr>joinpath = (\<lambda>d f. d @ ''/'' @ f),
      read_yaml = (\<lambda>p. if p = ''configs/model_config.yaml'' then Some (Inr model_yaml)
                        else if p = ''configs/rag_config.yaml'' then Some (Inr rag_yaml)
                        else None),
      os_getenv = (\<lambda>v. None)\<rparr>"

text \<open>A directory whose model configuration holds one option that nothing reads.\<close>

definition odd_cfg :: config_env where
  "odd_cfg =
     \<lparr>joinpath = (\<lambda>d f. d @ ''/'' @ f),
      read_yaml = (\<lambda>p. if p = ''configs/model_config.yaml''
                        then Some (Inr (YDict [(''unknown_option'', YInt 1)]))
                        else if p = ''configs/rag_config.yaml'' then Some (Inr rag_yaml)
                        else None),
      os_getenv = (\<lambda>v. None)\<rparr>"

text \<open>
  Collaborators of the web interface: the collection is the list of stored texts, the
  PDF reader rejects every file, and the retriever finds nothing.
\<close>

definition demo_ui :: "(string list, nat, splitter_cfg) ui_env" where
  "demo_ui =
     \<lparr>cfg_env = demo_cfg,
      EmbeddingGenerator_init = (\<lambda>m d. Inr ()),
      VectorStore_init = (\<lambda>p c m. Inr ()),
      OpenRouterLLM_init = (\<lambda>m t n a. Inr ()),
      RAGRetriever_init = (\<lambda>v g k t. Inr ()),
      save_upload = (\<lambda>u. Inr (''data/raw/'' @ up_name u)),
      core_PDFLoader_load = (\<lambda>p. Inl (LibraryError ''cannot read the file'')),
      splitter_init = RecursiveCharacterTextSplitter,
      splitter_split_text = (\<lambda>sp t. Inr [t]),
      embed_texts = (\<lambda>g ts. Inr (map length ts)),
      add_documents = (\<lambda>vs d ts es ms. Inr (d @ ts)),
      get_collection_count = (\<lambda>vs d. Inr (int (length d))),
      reset_collection = (\<lambda>vs d. Inr []),
      retrieve = (\<lambda>r d q. Inr []),
      format_context = (\<lambda>r ds. Inr (concat (map r_text ds))),
      get_system_message = (\<lambda>k. Inr ''Answer from the context only.''),
      generate_with_context = (\<lambda>l q c s. Inr ''an answer'')\<rparr>"

definition odd_ui :: "(string list, nat, splitter_cfg) ui_env" where
  "odd_ui = demo_ui\<lparr>cfg_env := odd_cfg\<rparr>"

definition demo_world :: "(string list) ui_world" where
  "demo_world = \<lparr>db = [], calls = []\<rparr>"

definition ready_session :: session where
  "ready_session = snd (snd (initialize_components demo_ui initial_session))"



section \<open>Properties of the loader\<close>

text \<open>
  C1 (as amended). When the PDF reader raises on a file, \<open>load_pdf\<close> does not raise:
  it prints one line naming the file and the error, and returns the empty list of
  chunks. The claim that the failure is propagated to the caller does not hold.
\<close>

theorem load_pdf_swallows_failure:
  assumes "PyPDFLoader_load env file_path = Inl e"
  shows "load_pdf env self file_path =
           ([''Error loading PDF '' @ file_path @ '': '' @ str_of e], Inr [])"
  using assms by (simp add: load_pdf_def)

theorem load_pdf_swallows_failure_witness:
  "PyPDFLoader_load corrupt_pdf_env ''corrupt.pdf'' = Inl (LibraryError ''EOF marker not found'')
   \<and> load_pdf corrupt_pdf_env default_loader ''corrupt.pdf'' =
       ([''Error loading PDF corrupt.pdf: EOF marker not found''], Inr [])"
proof -
  have h: "PyPDFLoader_load corrupt_pdf_env ''corrupt.pdf'' = Inl (LibraryError ''EOF marker not found'')"
    by (simp add: corrupt_pdf_env_def)
  from load_pdf_swallows_failure [OF h, of default_loader] h show ?thesis by simp
qed

theorem load_pdf_propagates_counterexample:
  "PyPDFLoader_load corrupt_pdf_env ''corrupt.pdf'' = Inl (LibraryError ''EOF marker not found'')
   \<and> snd (load_pdf corrupt_pdf_env default_loader ''corrupt.pdf'') = Inr []"
  by (simp add: load_pdf_def corrupt_pdf_env_def)

section \<open>Properties of the chunker's construction\<close>




section \<open>Properties of the web pipeline's answer operation\<close>

text \<open>
  C3. When the retriever returns the empty list for a question, \<open>answer_question\<close>
  returns the fixed message that no relevant information was found; the only
  collaborator called is the retriever, so neither the context formatter nor the
  generation backend runs, and the session and the collection are unchanged.
\<close>

theorem empty_retrieval_bypasses_generation:
  assumes "ss_retriever ss = Some retriever"
      and "retrieve env retriever (db w) q = Inr []"
  shows "answer_question env w ss q =
           (OnlyText no_information, w\<lparr>calls := calls w @ [Retrieve q]\<rparr>, ss)"
  using assms by (simp add: answer_question_def called_def Let_def)

section \<open>Properties of the orchestrators before a document is loaded\<close>















lemma ready_session_eq:
  "initialize_components demo_ui initial_session =
     (True, [],
      \<lparr>ss_vector_store =
         Some (VectorStore (YStr ''data/vector_db'') (YStr ''pdf_documents'') (YStr ''cosine'')),
       ss_embedding_generator = Some (EmbeddingGenerator (YStr ''all-MiniLM-L6-v2'') (YStr ''cpu'')),
       ss_llm = Some (OpenRouterLLM (YStr ''some/model'') (YFloat ''0.7'') (YInt 512)
                        (YStr ''PDF-RAG-QA-System'')),
       ss_retriever =
         Some (RAGRetriever
                 (Some (VectorStore (YStr ''data/vector_db'') (YStr ''pdf_documents'')
                          (YStr ''cosine'')))
                 (Some (EmbeddingGenerator (YStr ''all-MiniLM-L6-v2'') (YStr ''cpu'')))
                 (YInt 3) (YFloat ''0.5'')),
       documents_loaded = False, chat_history = []\<rparr>)"
  by (simp add: initialize_components_def demo_ui_def demo_cfg_def load_config_def
      ConfigLoader_init_def model_yaml_def rag_yaml_def ensure_embedding_generator_def
      ensure_vector_store_def ensure_llm_def ensure_retriever_def make_embedding_generator_def
      make_vector_store_def make_llm_def make_retriever_def bind_def initial_session_def Let_def)


lemma ready_session_fields:
  "ss_retriever ready_session =
     Some (RAGRetriever
             (Some (VectorStore (YStr ''data/vector_db'') (YStr ''pdf_documents'')
                      (YStr ''cosine'')))
             (Some (EmbeddingGenerator (YStr ''all-MiniLM-L6-v2'') (YStr ''cpu'')))
             (YInt 3) (YFloat ''0.5''))"
  "ss_vector_store ready_session =
     Some (VectorStore (YStr ''data/vector_db'') (YStr ''pdf_documents'') (YStr ''cosine''))"
  "ss_embedding_generator ready_session =
     Some (EmbeddingGenerator (YStr ''all-MiniLM-L6-v2'') (YStr ''cpu''))"
  "ss_llm ready_session =
     Some (OpenRouterLLM (YStr ''some/model'') (YFloat ''0.7'') (YInt 512)
             (YStr ''PDF-RAG-QA-System''))"
  "\<not> documents_loaded ready_session"
  by (simp_all add: ready_session_def ready_session_eq)









theorem empty_retrieval_bypasses_generation_witness:
  "retrieve demo_ui
     (RAGRetriever
        (Some (VectorStore (YStr ''data/vector_db'') (YStr ''pdf_documents'') (YStr ''cosine'')))
        (Some (EmbeddingGenerator (YStr ''all-MiniLM-L6-v2'') (YStr ''cpu'')))
        (YInt 3) (YFloat ''0.5''))
     (db demo_world) ''What is the capital of France?'' = Inr []
   \<and> answer_question demo_ui demo_world ready_session ''What is the capital of France?'' =
       (OnlyText no_information,
        \<lparr>db = [], calls = [Retrieve ''What is the capital of France?'']\<rparr>, ready_session)"
proof -
  have h: "retrieve demo_ui
     (RAGRetriever
        (Some (VectorStore (YStr ''data/vector_db'') (YStr ''pdf_documents'') (YStr ''cosine'')))
        (Some (EmbeddingGenerator (YStr ''all-MiniLM-L6-v2'') (YStr ''cpu'')))
        (YInt 3) (YFloat ''0.5''))
     (db demo_world) ''What is the capital of France?'' = Inr []"
    by (simp add: demo_ui_def)
  from empty_retrieval_bypasses_generation [OF ready_session_fields(1) h] h
  show ?thesis by (simp add: demo_world_def)
qed











section \<open>Properties of building and loading the index\<close>

text \<open>
  C8 (as amended). Loading a persisted index compares no embedding models: when the
  path exists, \<open>build_vector_store\<close> hands what is stored there and the embeddings
  configured now to the library's \<open>load_local\<close>, and whenever that call returns a
  store the build succeeds with that store, whichever model the snapshot was built with.
\<close>

theorem load_compares_no_models:
  assumes "os_path_exists w p"
      and "faiss_load_local env (the (disk w p)) (embeddings self) = Inr vs"
  shows "build_vector_store env w self documents (Some p) =
           (Inr (), w\<lparr>trace := trace w @ [LoadLocal p]\<rparr>, self\<lparr>vector_store := Some vs\<rparr>)"
  using assms by (simp add: build_vector_store_def os_path_exists_def logged_def Let_def)

lemma world_A_eq:
  "world_A = \<lparr>disk = [''idx'' \<mapsto> [(paris, ''A'')]],
              trace = [FromDocuments [paris], SaveLocal ''idx'']\<rparr>"
  by (simp add: world_A_def build_vector_store_def faiss_model_def empty_world_def
      system_with_def os_path_exists_def logged_def embeddings_def paris_def Let_def)

theorem load_compares_no_models_witness:
  "os_path_exists world_A ''idx''
   \<and> build_vector_store faiss_model world_A (system_with ''B'') [] (Some ''idx'') =
       (Inr (),
        \<lparr>disk = [''idx'' \<mapsto> [(paris, ''A'')]],
         trace = [FromDocuments [paris], SaveLocal ''idx'', LoadLocal ''idx'']\<rparr>,
        (system_with ''B'')
          \<lparr>vector_store := Some \<lparr>entries = [(paris, ''A'')], query_model = ''B''\<rparr>\<rparr>)"
proof -
  have e: "os_path_exists world_A ''idx''"
    by (simp add: world_A_eq os_path_exists_def)
  have l: "faiss_load_local faiss_model (the (disk world_A ''idx''))
             (embeddings (system_with ''B'')) =
           Inr \<lparr>entries = [(paris, ''A'')], query_model = ''B''\<rparr>"
    by (simp add: world_A_eq faiss_model_def embeddings_def system_with_def)
  from load_compares_no_models [OF e l, of "[]"] e show ?thesis
    by (simp add: world_A_eq)
qed

theorem model_mismatch_loads_counterexample:
  "embedding_model (system_with ''B'') \<noteq> ''A''
   \<and> fst (build_vector_store faiss_model world_A (system_with ''B'') [] (Some ''idx'')) = Inr ()
   \<and> vector_store
       (snd (snd (build_vector_store faiss_model world_A (system_with ''B'') [] (Some ''idx'')))) =
     Some \<lparr>entries = [(paris, ''A'')], query_model = ''B''\<rparr>"
  by (simp add: world_A_eq build_vector_store_def faiss_model_def system_with_def
      os_path_exists_def logged_def embeddings_def Let_def)

text \<open>
  C10. When the path exists, \<open>build_vector_store\<close> loads from it and the documents it
  was given play no part: the outcome is that of the library's \<open>load_local\<close>, the only
  library call made, whatever the documents. When the path is missing or not given and
  the list of documents is empty, it raises \<open>ValueError\<close> and leaves the object and the
  disk as they were.
\<close>

theorem build_vector_store_load_or_refuse:
  "(os_path_exists w p \<longrightarrow>
      build_vector_store env w self documents (Some p) =
        (case faiss_load_local env (the (disk w p)) (embeddings self) of
           Inl e \<Rightarrow> (Inl e, w\<lparr>trace := trace w @ [LoadLocal p]\<rparr>, self)
         | Inr vs \<Rightarrow> (Inr (), w\<lparr>trace := trace w @ [LoadLocal p]\<rparr>,
                      self\<lparr>vector_store := Some vs\<rparr>)))
   \<and> (path = None \<or> \<not> os_path_exists w (the path) \<longrightarrow>
        build_vector_store env w self [] path =
          (Inl (ValueError ''No documents provided to build vector store''), w, self))"
  by (auto simp: build_vector_store_def os_path_exists_def logged_def Let_def split: sum.splits)

theorem build_vector_store_load_or_refuse_witness:
  "os_path_exists world_A ''idx'' \<and> \<not> os_path_exists world_A ''other''
   \<and> build_vector_store faiss_model world_A (system_with ''A'') [paris, paris] (Some ''idx'') =
       (Inr (),
        \<lparr>disk = [''idx'' \<mapsto> [(paris, ''A'')]],
         trace = [FromDocuments [paris], SaveLocal ''idx'', LoadLocal ''idx'']\<rparr>,
        (system_with ''A'')
          \<lparr>vector_store := Some \<lparr>entries = [(paris, ''A'')], query_model = ''A''\<rparr>\<rparr>)
   \<and> build_vector_store faiss_model world_A (system_with ''A'') [] (Some ''other'') =
       (Inl (ValueError ''No documents provided to build vector store''), world_A,
        system_with ''A'')"
proof -
  have e: "os_path_exists world_A ''idx''" and n: "\<not> os_path_exists world_A ''other''"
    by (simp_all add: world_A_eq os_path_exists_def)
  have l: "faiss_load_local faiss_model (the (disk world_A ''idx''))
             (embeddings (system_with ''A'')) =
           Inr \<lparr>entries = [(paris, ''A'')], query_model = ''A''\<rparr>"
    by (simp add: world_A_eq faiss_model_def embeddings_def system_with_def)
  from build_vector_store_load_or_refuse
         [of world_A "''idx''" faiss_model "system_with ''A''" "[paris, paris]" "Some ''other''"]
       e n l
  show ?thesis by (simp add: world_A_eq)
qed

section \<open>Properties of configuration loading\<close>

lemma keys_replace_env_vars: "keys (replace_env_vars getenv config) = keys config"
  by (cases config) (simp_all add: comp_def split: option.splits)

lemma load_config_dir: "config_dir (snd (load_config env self f)) = config_dir self"
  by (simp add: load_config_def Let_def split: option.splits sum.splits)

lemma load_config_fst:
  "config_dir self = config_dir self' \<Longrightarrow>
     fst (load_config env self f) = fst (load_config env self' f)"
  by (simp add: load_config_def Let_def split: option.splits sum.splits)

lemma make_embedding_generator_reads:
  "make_embedding_generator env mc = Inr g \<Longrightarrow>
     \<not> isl (nested mc (''embeddings'', ''model_name''))"
  by (auto simp: make_embedding_generator_def nested_def bind_def split: sum.splits)

lemma make_llm_reads:
  "make_llm env mc = Inr l \<Longrightarrow>
     \<not> isl (nested mc (''llm'', ''model_name'')) \<and> \<not> isl (nested mc (''llm'', ''temperature''))
     \<and> \<not> isl (nested mc (''llm'', ''max_tokens'')) \<and> \<not> isl (subscript mc ''openrouter'')"
  by (auto simp: make_llm_def nested_def bind_def split: sum.splits)

lemma make_vector_store_reads:
  "make_vector_store env rc = Inr v \<Longrightarrow>
     \<not> isl (nested rc (''vector_store'', ''persist_directory''))
     \<and> \<not> isl (nested rc (''vector_store'', ''collection_name''))"
  by (auto simp: make_vector_store_def nested_def bind_def split: sum.splits)

lemma make_retriever_reads:
  "make_retriever env rc ss = Inr r \<Longrightarrow>
     \<not> isl (nested rc (''retrieval'', ''k''))
     \<and> \<not> isl (nested rc (''retrieval'', ''score_threshold''))"
  by (auto simp: make_retriever_def nested_def bind_def split: sum.splits)

lemma ensure_fresh:
  "ss_embedding_generator ss = None \<Longrightarrow> ensure_embedding_generator env mc ss = Inr ss1
     \<Longrightarrow> \<exists>g. make_embedding_generator env mc = Inr g
              \<and> ss1 = ss\<lparr>ss_embedding_generator := Some g\<rparr>"
  "ss_vector_store ss = None \<Longrightarrow> ensure_vector_store env rc ss = Inr ss1
     \<Longrightarrow> \<exists>g. make_vector_store env rc = Inr g \<and> ss1 = ss\<lparr>ss_vector_store := Some g\<rparr>"
  "ss_llm ss = None \<Longrightarrow> ensure_llm env mc ss = Inr ss1
     \<Longrightarrow> \<exists>g. make_llm env mc = Inr g \<and> ss1 = ss\<lparr>ss_llm := Some g\<rparr>"
  "ss_retriever ss = None \<Longrightarrow> ensure_retriever env rc ss = Inr ss1
     \<Longrightarrow> \<exists>g. make_retriever env rc ss = Inr g \<and> ss1 = ss\<lparr>ss_retriever := Some g\<rparr>"
  by (auto simp: ensure_embedding_generator_def ensure_vector_store_def ensure_llm_def
      ensure_retriever_def bind_def split: sum.splits)

lemma fresh_init_reads_all:
  assumes ok: "fst (initialize_components env initial_session)"
      and m: "fst (load_config (cfg_env env) (ConfigLoader_init ''configs'')
                 ''model_config.yaml'') = Inr mc"
      and r: "fst (load_config (cfg_env env) (ConfigLoader_init ''configs'')
                 ''rag_config.yaml'') = Inr rc"
  shows "(\<forall>k \<in> set model_config_reads. \<not> isl (nested mc k))
         \<and> \<not> isl (subscript mc ''openrouter'')
         \<and> (\<forall>k \<in> set rag_config_reads. \<not> isl (nested rc k))"
proof -
  obtain l1 where m1: "load_config (cfg_env env) (ConfigLoader_init ''configs'')
                         ''model_config.yaml'' = (Inr mc, l1)"
    using m
    by (cases "load_config (cfg_env env) (ConfigLoader_init ''configs'') ''model_config.yaml''")
       auto
  from load_config_dir [of "cfg_env env" "ConfigLoader_init ''configs''" "''model_config.yaml''"]
       m1
  have "config_dir l1 = config_dir (ConfigLoader_init ''configs'')" by simp
  from load_config_fst [OF this, of "cfg_env env" "''rag_config.yaml''"] r
  obtain l2 where r1: "load_config (cfg_env env) l1 ''rag_config.yaml'' = (Inr rc, l2)"
    by (cases "load_config (cfg_env env) l1 ''rag_config.yaml''") auto
  from ok m1 r1 obtain ss1 ss2 ss3 ss4 where
    e1: "ensure_embedding_generator env mc initial_session = Inr ss1" and
    e2: "ensure_vector_store env rc ss1 = Inr ss2" and
    e3: "ensure_llm env mc ss2 = Inr ss3" and
    e4: "ensure_retriever env rc ss3 = Inr ss4"
    by (auto simp: initialize_components_def Let_def init_failed_def split: sum.splits)
  from ensure_fresh(1) [OF _ e1] obtain g where g: "make_embedding_generator env mc = Inr g"
    and s1: "ss1 = initial_session\<lparr>ss_embedding_generator := Some g\<rparr>"
    by (auto simp: initial_session_def)
  from s1 have "ss_vector_store ss1 = None" by (simp add: initial_session_def)
  from ensure_fresh(2) [OF this e2] obtain v where v: "make_vector_store env rc = Inr v"
    and s2: "ss2 = ss1\<lparr>ss_vector_store := Some v\<rparr>" by auto
  from s1 s2 have "ss_llm ss2 = None" by (simp add: initial_session_def)
  from ensure_fresh(3) [OF this e3] obtain l where l: "make_llm env mc = Inr l"
    and s3: "ss3 = ss2\<lparr>ss_llm := Some l\<rparr>" by auto
  from s1 s2 s3 have "ss_retriever ss3 = None" by (simp add: initial_session_def)
  from ensure_fresh(4) [OF this e4] obtain rt where rt: "make_retriever env rc ss3 = Inr rt"
    by auto
  from make_embedding_generator_reads [OF g] make_llm_reads [OF l] make_vector_store_reads [OF v]
    make_retriever_reads [OF rt]
  show ?thesis by (simp add: model_config_reads_def rag_config_reads_def)
qed

text \<open>
  C9 (as amended). \<open>load_config\<close> knows no set of options. For every file that exists
  and parses it returns the parsed value with the placeholders replaced and with exactly
  the top-level keys of the file, whatever they are; it fails only when the file does
  not exist or cannot be opened or parsed. Unknown keys are never rejected. A missing
  key is noticed only where it is read: in a fresh session \<open>initialize_components\<close>
  returns \<open>False\<close> when one of the keys it reads with a subscript is absent from the
  loaded configurations.
\<close>

theorem load_config_checks_no_keys:
  "(read_yaml env (joinpath env (config_dir self) config_file) = Some (Inr parsed) \<longrightarrow>
      fst (load_config env self config_file) = Inr (replace_env_vars (os_getenv env) parsed)
      \<and> keys (replace_env_vars (os_getenv env) parsed) = keys parsed)
   \<and> (isl (fst (load_config env self config_file)) =
        (case read_yaml env (joinpath env (config_dir self) config_file) of
           None \<Rightarrow> True
         | Some r \<Rightarrow> isl r))
   \<and> (fst (load_config (cfg_env uenv) (ConfigLoader_init ''configs'') ''model_config.yaml'') =
         Inr mc
       \<and> fst (load_config (cfg_env uenv) (ConfigLoader_init ''configs'') ''rag_config.yaml'') =
         Inr rc
       \<and> ((\<exists>k \<in> set model_config_reads. isl (nested mc k)) \<or> isl (subscript mc ''openrouter'')
          \<or> (\<exists>k \<in> set rag_config_reads. isl (nested rc k)))
       \<longrightarrow> \<not> fst (initialize_components uenv initial_session))"
proof (intro conjI)
  show "read_yaml env (joinpath env (config_dir self) config_file) = Some (Inr parsed) \<longrightarrow>
      fst (load_config env self config_file) = Inr (replace_env_vars (os_getenv env) parsed)
      \<and> keys (replace_env_vars (os_getenv env) parsed) = keys parsed"
    by (simp add: load_config_def Let_def keys_replace_env_vars)
  show "isl (fst (load_config env self config_file)) =
        (case read_yaml env (joinpath env (config_dir self) config_file) of
           None \<Rightarrow> True
         | Some r \<Rightarrow> isl r)"
    by (simp add: load_config_def Let_def split: option.splits sum.splits)
  show "fst (load_config (cfg_env uenv) (ConfigLoader_init ''configs'') ''model_config.yaml'') =
         Inr mc
       \<and> fst (load_config (cfg_env uenv) (ConfigLoader_init ''configs'') ''rag_config.yaml'') =
         Inr rc
       \<and> ((\<exists>k \<in> set model_config_reads. isl (nested mc k)) \<or> isl (subscript mc ''openrouter'')
          \<or> (\<exists>k \<in> set rag_config_reads. isl (nested rc k)))
       \<longrightarrow> \<not> fst (initialize_components uenv initial_session)"
    using fresh_init_reads_all [of uenv mc rc] by blast
qed

theorem load_config_checks_no_keys_witness:
  "fst (load_config odd_cfg (ConfigLoader_init ''configs'') ''model_config.yaml'') =
     Inr (YDict [(''unknown_option'', YInt 1)])
   \<and> isl (nested (YDict [(''unknown_option'', YInt 1)]) (''embeddings'', ''model_name''))
   \<and> \<not> fst (initialize_components odd_ui initial_session)"
proof -
  have h: "read_yaml odd_cfg (joinpath odd_cfg (config_dir (ConfigLoader_init ''configs''))
             ''model_config.yaml'') = Some (Inr (YDict [(''unknown_option'', YInt 1)]))"
    by (simp add: odd_cfg_def ConfigLoader_init_def)
  note t = load_config_checks_no_keys
         [of odd_cfg "ConfigLoader_init ''configs''" "''model_config.yaml''"
             "YDict [(''unknown_option'', YInt 1)]" odd_ui
             "YDict [(''unknown_option'', YInt 1)]" rag_yaml]
  from t h have 1: "fst (load_config odd_cfg (ConfigLoader_init ''configs'')
                      ''model_config.yaml'') = Inr (YDict [(''unknown_option'', YInt 1)])"
    by simp
  have c: "cfg_env odd_ui = odd_cfg" by (simp add: odd_ui_def)
  have 2: "fst (load_config odd_cfg (ConfigLoader_init ''configs'') ''rag_config.yaml'') =
             Inr rag_yaml"
    by (simp add: load_config_def odd_cfg_def ConfigLoader_init_def Let_def rag_yaml_def)
  have 3: "isl (nested (YDict [(''unknown_option'', YInt 1)]) (''embeddings'', ''model_name''))"
    by (simp add: nested_def bind_def)
  have 4: "(''embeddings'', ''model_name'') \<in> set model_config_reads"
    by (simp add: model_config_reads_def)
  from t 1 2 3 4 c have "\<not> fst (initialize_components odd_ui initial_session)"
    by auto
  with 1 3 show ?thesis by simp
qed

theorem unknown_key_accepted_counterexample:
  "fst (load_config odd_cfg (ConfigLoader_init ''configs'') ''model_config.yaml'') =
     Inr (YDict [(''unknown_option'', YInt 1)])
   \<and> keys (YDict [(''unknown_option'', YInt 1)]) = [''unknown_option'']"
  by (simp add: load_config_def odd_cfg_def ConfigLoader_init_def Let_def)

end
